theory Spec2Isabelle
  imports Main "HOL-Library.Word" "HOL-Library.Sublist"
begin

unbundle bit_operations_syntax

section \<open>smallsh: a small shell with built-ins, redirection and background jobs\<close>

text \<open>
  This theory embeds \<^verbatim>\<open>smallsh.c\<close> function by function. The global variables of
  the program are the fields of one record that every function takes and returns;
  what the kernel or the C library answers (the line read, the result of \<^verbatim>\<open>fork\<close>,
  the statuses \<^verbatim>\<open>waitpid\<close> delivers, whether \<^verbatim>\<open>open\<close> or \<^verbatim>\<open>malloc\<close> succeed) is
  an explicit argument; what the shell writes or asks of the kernel is a list of
  events. A write outside an array or buffer, which C leaves undefined, and the
  \<^verbatim>\<open>exit\<close> on a failed allocation are error values.
\<close>

subsection \<open>Wait statuses\<close>

text \<open>
  Modelled from the spec: the macros \<^verbatim>\<open>WIFEXITED\<close>, \<^verbatim>\<open>WEXITSTATUS\<close>,
  \<^verbatim>\<open>WIFSIGNALED\<close>, \<^verbatim>\<open>WTERMSIG\<close> and \<^verbatim>\<open>WIFSTOPPED\<close> come from \<^verbatim>\<open><sys/wait.h>\<close>,
  which is not part of the repository. They are given the standard wait-status
  encoding on a 32-bit \<^verbatim>\<open>int\<close>: the low seven bits hold the terminating signal
  (zero for a normal exit), bit 7 the core-dump flag, bits 8 to 15 the exit code,
  and a low byte of \<^verbatim>\<open>0x7f\<close> marks a stopped child.
\<close>

type_synonym c_int = "32 word"

definition WTERMSIG :: "c_int \<Rightarrow> c_int" where
  "WTERMSIG s = s AND 0x7f"

definition WEXITSTATUS :: "c_int \<Rightarrow> c_int" where
  "WEXITSTATUS s = drop_bit 8 (s AND 0xff00)"

definition WIFEXITED :: "c_int \<Rightarrow> bool" where
  "WIFEXITED s = (WTERMSIG s = 0)"

text \<open>
  \<^verbatim>\<open>((signed char) ((s & 0x7f) + 1) >> 1) > 0\<close>: the sum is cut to eight bits, read
  as a signed value and halved.
\<close>

definition WIFSIGNALED :: "c_int \<Rightarrow> bool" where
  "WIFSIGNALED s = (0 < sint (ucast ((s AND 0x7f) + 1) :: 8 word) div 2)"

definition WIFSTOPPED :: "c_int \<Rightarrow> bool" where
  "WIFSTOPPED s = (s AND 0xff = 0x7f)"

subsection \<open>Printing integers\<close>

text \<open>The conversion \<^verbatim>\<open>%d\<close> of \<^verbatim>\<open>printf\<close> and \<^verbatim>\<open>snprintf\<close>.\<close>

definition digit_char :: "nat \<Rightarrow> char" where
  "digit_char d = ''0123456789'' ! d"

fun dec_nat :: "nat \<Rightarrow> string" where
  "dec_nat n = (if n < 10 then [digit_char n] else dec_nat (n div 10) @ [digit_char (n mod 10)])"

declare dec_nat.simps [simp del]

definition dec_int :: "int \<Rightarrow> string" where
  "dec_int i = (if i < 0 then CHR ''-'' # dec_nat (nat (- i)) else dec_nat (nat i))"

subsection \<open>The global variables\<close>

text \<open>
  The flags \<^verbatim>\<open>in\<close> and \<^verbatim>\<open>out\<close> are the fields \<open>in_flag\<close> and \<open>out_flag\<close>.
  \<^verbatim>\<open>inputFile\<close> and \<^verbatim>\<open>outputFile\<close> are pointers that may be \<^verbatim>\<open>NULL\<close>. The tracker is
  an array of 250 process identifiers; \<^verbatim>\<open>status\<close> starts at \<^verbatim>\<open>-5\<close> and
  \<^verbatim>\<open>backgroundAllowed\<close> at \<^verbatim>\<open>1\<close>.
\<close>

record shell_state =
  in_flag :: int
  out_flag :: int
  isBackground :: int
  inputFile :: "string option"
  outputFile :: "string option"
  bgTracker :: "int list"
  numBGProcesses :: int
  status :: c_int
  backgroundAllowed :: int

definition initial_state :: shell_state where
  "initial_state =
     \<lparr> in_flag = 0, out_flag = 0, isBackground = 0,
       inputFile = None, outputFile = None,
       bgTracker = replicate 250 0, numBGProcesses = 0,
       status = - 5, backgroundAllowed = 1 \<rparr>"

subsection \<open>The outside world\<close>

text \<open>What a process does to the outside world, in order.\<close>

datatype oflag = O_RDONLY | O_WRONLY | O_CREAT | O_TRUNC

datatype signal = SIGINT | SIGTSTP

datatype disposition = SIG_IGN | SIG_DFL

datatype event =
    Printf string
  | Perror string
  | Write string
  | Kill int
  | Chdir "string option"
  | Sigaction signal disposition
  | Open "string option" "oflag list" "nat option"
  | Dup2 int int
  | Execvp "string option" "string list"

text \<open>The three ways \<^verbatim>\<open>fork\<close> returns.\<close>

datatype fork_result = Fork_Failed | Fork_Child | Fork_Parent int

text \<open>
  What the outside world answers during one iteration of the main loop:
  \<^item> \<open>env_line\<close>: the text \<^verbatim>\<open>getline\<close> left in the line buffer, up to its
    terminating zero byte, and \<open>env_bufsize\<close>: the size of that buffer;
  \<^item> \<open>env_pid\<close>: the result of \<^verbatim>\<open>getpid\<close>;
  \<^item> \<open>env_alloc n\<close>: whether \<^verbatim>\<open>malloc\<close> or \<^verbatim>\<open>realloc\<close> grants an array of
    \<open>n\<close> pointers;
  \<^item> \<open>env_home\<close>: the result of \<^verbatim>\<open>getenv("HOME")\<close>, and \<open>env_chdir p\<close>: whether
    \<^verbatim>\<open>chdir\<close> to \<open>p\<close> succeeds;
  \<^item> \<open>env_fork\<close>: how \<^verbatim>\<open>fork\<close> returns in the process being followed;
  \<^item> \<open>env_waits\<close>: the statuses that the successive calls of \<^verbatim>\<open>waitpid\<close> on the
    foreground child deliver;
  \<^item> \<open>env_reap p\<close>: the status of the background child \<open>p\<close> when the
    non-blocking \<^verbatim>\<open>waitpid\<close> returns \<open>p\<close>, and \<open>None\<close> when it returns anything
    else;
  \<^item> \<open>env_open\<close>: the descriptor \<^verbatim>\<open>open\<close> returns in the child, \<open>-1\<close> on failure;
  \<^item> \<open>env_exec\<close>: whether \<^verbatim>\<open>execvp\<close> starts the program.
\<close>

record environment =
  env_line :: string
  env_bufsize :: nat
  env_pid :: int
  env_alloc :: "nat \<Rightarrow> bool"
  env_home :: "string option"
  env_chdir :: "string option \<Rightarrow> bool"
  env_fork :: fork_result
  env_waits :: "c_int list"
  env_reap :: "int \<Rightarrow> c_int option"
  env_open :: "string option \<Rightarrow> oflag list \<Rightarrow> nat option \<Rightarrow> int"
  env_exec :: "string option \<Rightarrow> string list \<Rightarrow> bool"

text \<open>
  The ways in which a function of the shell does not return to its caller: the
  \<^verbatim>\<open>exit\<close> after a failed allocation, a write past the end of a buffer or array
  (undefined in C), a wait that no status ends, and the child process, which
  leaves \<^verbatim>\<open>shell_launch\<close> by \<^verbatim>\<open>exit\<close> or by becoming the program it executes.
\<close>

datatype stop =
    Allocation_Exit
  | Buffer_Overflow
  | Line_Overflow
  | Token_Overflow
  | Tracker_Overflow
  | Wait_Blocked
  | Child_Exit "event list" int
  | Child_Exec "event list"

type_synonym 'a result = "stop + 'a"

text \<open>A function returns to the main loop its value, the new globals and its events.\<close>

type_synonym command_result = "(int \<times> shell_state \<times> event list) result"

text \<open>Reading \<^verbatim>\<open>args[i]\<close> in a vector that ends with \<^verbatim>\<open>NULL\<close>.\<close>

definition arg :: "string list \<Rightarrow> nat \<Rightarrow> string option" where
  "arg args i = (if i < length args then Some (args ! i) else None)"

subsection \<open>The built-in commands\<close>

definition shell_cd :: "environment \<Rightarrow> string list \<Rightarrow> shell_state \<Rightarrow> command_result" where
  "shell_cd env args st =
     (if arg args 1 = None then
        (if \<not> env_chdir env (env_home env)
         then Inr (1, st, [Chdir (env_home env), Perror ''smallsh''])
         else Inr (1, st, [Chdir (env_home env)]))
      else if arg args 1 = Some ''~'' then
        (if \<not> env_chdir env (env_home env)
         then Inr (1, st, [Chdir (env_home env), Perror ''smallsh''])
         else Inr (1, st, [Chdir (env_home env)]))
      else
        (if \<not> env_chdir env (arg args 1)
         then Inr (1, st, [Chdir (arg args 1), Perror ''smallsh''])
         else Inr (1, st, [Chdir (arg args 1)])))"

text \<open>\<^verbatim>\<open>kill_processes\<close>: one \<^verbatim>\<open>SIGKILL\<close> for each of the first \<open>n\<close> entries (\<^verbatim>\<open>size\<close> in the source).\<close>

definition kill_processes :: "int \<Rightarrow> int list \<Rightarrow> event list" where
  "kill_processes n bgProcesses = map Kill (take (nat n) bgProcesses)"

definition shell_exit :: "environment \<Rightarrow> string list \<Rightarrow> shell_state \<Rightarrow> command_result" where
  "shell_exit env args st = Inr (0, st, kill_processes (numBGProcesses st) (bgTracker st))"

definition shell_status :: "environment \<Rightarrow> string list \<Rightarrow> shell_state \<Rightarrow> command_result" where
  "shell_status env args st =
     (if WIFEXITED (status st) then
        Inr (1, st, [Printf (''exit value '' @ dec_int (sint (WEXITSTATUS (status st))) @ ''\<newline>'')])
      else if WIFSIGNALED (status st) then
        Inr (1, st, [Printf (''terminated by signal '' @ dec_int (sint (WTERMSIG (status st))) @ ''\<newline>'')])
      else Inr (1, st, []))"

definition builtin_str :: "string list" where
  "builtin_str = [''cd'', ''exit'', ''status'']"

definition builtin_func :: "(environment \<Rightarrow> string list \<Rightarrow> shell_state \<Rightarrow> command_result) list" where
  "builtin_func = [shell_cd, shell_exit, shell_status]"

definition shell_num_builtins :: nat where
  "shell_num_builtins = length builtin_str"

subsection \<open>Reading a line and expanding \<^verbatim>\<open>$$\<close>\<close>

text \<open>
  \<^verbatim>\<open>strstr\<close>: the offset of the first place where the needle occurs in the
  haystack, \<open>None\<close> for \<^verbatim>\<open>NULL\<close>.
\<close>

fun strstr :: "string \<Rightarrow> string \<Rightarrow> nat option" where
  "strstr [] needle = (if needle = [] then Some 0 else None)"
| "strstr (c # cs) needle =
     (if prefix needle (c # cs) then Some 0 else map_option Suc (strstr cs needle))"

text \<open>\<^verbatim>\<open>snprintf(pid, 10, "%d", ...)\<close> keeps at most nine characters.\<close>

definition pid_text :: "int \<Rightarrow> string" where
  "pid_text p = take 9 (dec_int p)"

text \<open>
  The loop of \<^verbatim>\<open>shell_read_line\<close>. The pointer \<^verbatim>\<open>p\<close> is the offset \<open>p\<close> into the
  line. When the marker is found at offset \<open>p + k\<close>, the static buffer of 4096
  bytes receives the \<open>p + k\<close> bytes before it, the process identifier and the
  text after the marker, with a terminating zero byte; the result is copied back
  into the line buffer of \<open>bufsize\<close> bytes, and \<open>p\<close> moves one byte past the place
  of the marker.
\<close>

function expand_loop :: "nat \<Rightarrow> string \<Rightarrow> string \<Rightarrow> nat \<Rightarrow> string result" where
  "expand_loop bufsize pid line p =
     (case strstr (drop p line) ''$$'' of
        None \<Rightarrow> Inr line
      | Some k \<Rightarrow>
          if 4096 < (p + k) + length pid + (length line - (p + k + 2)) + 1 then Inl Buffer_Overflow
          else if bufsize < (p + k) + length pid + (length line - (p + k + 2)) + 1 then Inl Line_Overflow
          else expand_loop bufsize pid (take (p + k) line @ pid @ drop (p + k + 2) line) (p + k + 1))"
  by pat_completeness auto
termination
  by (relation "measure (\<lambda>(bufsize, pid, line, p). 4096 - p)") auto

declare expand_loop.simps [simp del]

definition shell_read_line :: "environment \<Rightarrow> string result" where
  "shell_read_line env = expand_loop (env_bufsize env) (pid_text (env_pid env)) (env_line env) 0"

text \<open>
  The expansion as the specification words it, for comparison with the loop: the
  line is read from left to right, every \<^verbatim>\<open>$$\<close> met is replaced by the text of
  the process identifier and reading resumes after it; every other character is
  kept.
\<close>

fun spec_expand :: "string \<Rightarrow> string \<Rightarrow> string" where
  "spec_expand pid (a # b # rest) =
     (if a = CHR ''$'' \<and> b = CHR ''$'' then pid @ spec_expand pid rest
      else a # spec_expand pid (b # rest))"
| "spec_expand pid [a] = [a]"
| "spec_expand pid [] = []"

subsection \<open>Splitting the line\<close>

definition TOK_BUFFSIZE :: nat where
  "TOK_BUFFSIZE = 64"

text \<open>Space, tab, carriage return, newline and bell.\<close>

definition TOK_DELIM :: string where
  "TOK_DELIM = [CHR '' '', CHR 0x09, CHR 0x0D, CHR 0x0A, CHR 0x07]"

text \<open>
  The tokens that the successive calls of \<^verbatim>\<open>strtok\<close> return for one line, in
  order: each call skips the delimiters in front, returns the text up to the
  next delimiter and resumes after it; once the line is used up every further
  call returns \<^verbatim>\<open>NULL\<close>.
\<close>

function strtok_all :: "string \<Rightarrow> string \<Rightarrow> string list" where
  "strtok_all delim [] = []"
| "strtok_all delim (c # cs) =
     (if c \<in> set delim then strtok_all delim cs
      else takeWhile (\<lambda>x. x \<notin> set delim) (c # cs)
             # strtok_all delim (dropWhile (\<lambda>x. x \<notin> set delim) cs))"
  by pat_completeness auto
termination
  by (relation "measure (\<lambda>(delim, s). length s)")
     (auto simp: le_imp_less_Suc length_dropWhile_le)

text \<open>The result of one more \<^verbatim>\<open>strtok(NULL, ...)\<close> when \<open>rest\<close> are the tokens left.\<close>

definition next_token :: "string list \<Rightarrow> string option" where
  "next_token rest = (case rest of [] \<Rightarrow> None | t # _ \<Rightarrow> Some t)"

text \<open>The size of the token array after the check at the head of the loop body.\<close>

definition grown :: "nat \<Rightarrow> nat \<Rightarrow> nat" where
  "grown bufsize position = (if bufsize \<le> position then bufsize + TOK_BUFFSIZE else bufsize)"

text \<open>
  The \<^verbatim>\<open>while\<close> loop of \<^verbatim>\<open>shell_split_line\<close>: \<open>token # rest\<close> are the current token
  and those that \<^verbatim>\<open>strtok\<close> has still to return, \<open>tokens\<close> is the array filled so
  far (\<^verbatim>\<open>position\<close> is its length) and \<open>bufsize\<close> its capacity.
\<close>

fun split_loop ::
  "(nat \<Rightarrow> bool) \<Rightarrow> string list \<Rightarrow> string list \<Rightarrow> nat \<Rightarrow> shell_state
     \<Rightarrow> (string list \<times> nat \<times> shell_state) result" where
  "split_loop alloc [] tokens bufsize st = Inr (tokens, bufsize, st)"
| "split_loop alloc (token # rest) tokens bufsize st =
     (if bufsize \<le> length tokens \<and> \<not> alloc (bufsize + TOK_BUFFSIZE) then Inl Allocation_Exit
      else if token = ''>'' then
        split_loop alloc (drop 1 rest) tokens (grown bufsize (length tokens))
          (st\<lparr>out_flag := 1, outputFile := next_token rest\<rparr>)
      else if token = ''<'' then
        split_loop alloc (drop 1 rest) tokens (grown bufsize (length tokens))
          (st\<lparr>in_flag := 1, inputFile := next_token rest\<rparr>)
      else
        split_loop alloc rest (tokens @ [token]) (grown bufsize (length tokens)) st)"

text \<open>
  After the loop a final \<^verbatim>\<open>&\<close> is overwritten by \<^verbatim>\<open>NULL\<close>; otherwise \<^verbatim>\<open>NULL\<close> is
  stored at \<^verbatim>\<open>tokens[position]\<close>, which lies in the array only when
  \<^verbatim>\<open>position\<close> is below its capacity. The result is the argument vector without
  its closing \<^verbatim>\<open>NULL\<close>.
\<close>

definition shell_split_line ::
  "environment \<Rightarrow> string \<Rightarrow> shell_state \<Rightarrow> (string list \<times> shell_state) result" where
  "shell_split_line env line st =
     (if \<not> env_alloc env TOK_BUFFSIZE then Inl Allocation_Exit
      else
        case split_loop (env_alloc env) (strtok_all TOK_DELIM line) [] TOK_BUFFSIZE
               (st\<lparr>isBackground := 0\<rparr>) of
          Inl e \<Rightarrow> Inl e
        | Inr (tokens, bufsize, st1) \<Rightarrow>
            if 0 < length tokens \<and> tokens ! (length tokens - 1) = ''&'' then
              Inr (butlast tokens,
                   if backgroundAllowed st1 \<noteq> 0 then st1\<lparr>isBackground := 1\<rparr> else st1)
            else if length tokens < bufsize then Inr (tokens, st1)
            else Inl Token_Overflow)"

text \<open>
  Two readings of a list of tokens, used to say which lines a property is about:
  the tokens that the loop stores in the array (all but the redirection operators
  and the token after each), and whether the list ends with a redirection
  operator whose file name is missing.
\<close>

fun stored_tokens :: "string list \<Rightarrow> string list" where
  "stored_tokens [] = []"
| "stored_tokens (t # ts) =
     (if t = ''>'' \<or> t = ''<'' then stored_tokens (drop 1 ts) else t # stored_tokens ts)"

fun file_name_missing :: "string list \<Rightarrow> bool" where
  "file_name_missing [] = False"
| "file_name_missing (t # ts) =
     (if t = ''>'' \<or> t = ''<'' then ts = [] \<or> file_name_missing (drop 1 ts)
      else file_name_missing ts)"

subsection \<open>Launching a program\<close>

text \<open>
  The \<^verbatim>\<open>do ... while\<close> loop around \<^verbatim>\<open>waitpid\<close>: every status delivered is stored in
  \<^verbatim>\<open>status\<close>, and the loop goes on while that status is neither an exit nor a
  termination by a signal. When no further status is delivered the shell stays
  blocked in \<^verbatim>\<open>waitpid\<close>.
\<close>

fun wait_loop :: "c_int list \<Rightarrow> shell_state \<Rightarrow> shell_state option" where
  "wait_loop [] st = None"
| "wait_loop (w # ws) st =
     (if \<not> WIFEXITED (status (st\<lparr>status := w\<rparr>)) \<and> \<not> WIFSIGNALED (status (st\<lparr>status := w\<rparr>))
      then wait_loop ws (st\<lparr>status := w\<rparr>)
      else Some (st\<lparr>status := w\<rparr>))"

text \<open>
  A step of the child: its events, and the exit code when the step ends the
  process.
\<close>

type_synonym step = "event list \<times> int option"

definition and_then :: "step \<Rightarrow> step \<Rightarrow> step" where
  "and_then a b = (case snd a of Some code \<Rightarrow> a | None \<Rightarrow> (fst a @ fst b, snd b))"

text \<open>
  \<^verbatim>\<open>fd = open(...); if (fd == -1) { perror(msg); exit(1); } dup2(fd, target);\<close>
\<close>

definition open_and_dup ::
  "environment \<Rightarrow> string option \<Rightarrow> oflag list \<Rightarrow> nat option \<Rightarrow> string \<Rightarrow> int \<Rightarrow> step" where
  "open_and_dup env path flags mode msg target =
     (if env_open env path flags mode = - 1
      then ([Open path flags mode, Perror msg], Some 1)
      else ([Open path flags mode, Dup2 (env_open env path flags mode) target], None))"

text \<open>The octal constant \<^verbatim>\<open>0644\<close>: read and write for the owner, read for the others.\<close>

definition mode_0644 :: nat where
  "mode_0644 = 6 * 8 ^ 2 + 4 * 8 + 4"

definition skip_step :: step where
  "skip_step = ([], None)"

definition child_signals :: "shell_state \<Rightarrow> step" where
  "child_signals st =
     (Sigaction SIGTSTP SIG_IGN # (if isBackground st = 0 then [Sigaction SIGINT SIG_DFL] else []), None)"

definition child_input :: "environment \<Rightarrow> shell_state \<Rightarrow> step" where
  "child_input env st =
     (if in_flag st = 1
      then open_and_dup env (inputFile st) [O_RDONLY] None ''input file open()'' 0
      else skip_step)"

definition child_output :: "environment \<Rightarrow> shell_state \<Rightarrow> step" where
  "child_output env st =
     (if out_flag st = 1
      then open_and_dup env (outputFile st) [O_WRONLY, O_CREAT, O_TRUNC] (Some mode_0644)
             ''output file open()'' 1
      else skip_step)"

definition child_background_input :: "environment \<Rightarrow> shell_state \<Rightarrow> step" where
  "child_background_input env st =
     (if isBackground st \<noteq> 0 \<and> in_flag st = 0
      then open_and_dup env (Some ''/dev/null'') [O_RDONLY] None ''input file open()'' 0
      else skip_step)"

definition child_background_output :: "environment \<Rightarrow> shell_state \<Rightarrow> step" where
  "child_background_output env st =
     (if isBackground st \<noteq> 0 \<and> out_flag st = 0
      then open_and_dup env (Some ''/dev/null'') [O_WRONLY, O_CREAT, O_TRUNC] (Some mode_0644)
             ''output file open()'' 1
      else skip_step)"

definition child_setup :: "environment \<Rightarrow> shell_state \<Rightarrow> step" where
  "child_setup env st =
     and_then (child_signals st)
       (and_then (child_input env st)
         (and_then (child_output env st)
           (and_then (child_background_input env st) (child_background_output env st))))"

text \<open>
  The branch \<^verbatim>\<open>pid == 0\<close>: after the set-up the child becomes the program, or
  reports that it could not and exits with \<^verbatim>\<open>EXIT_FAILURE\<close>.
\<close>

definition shell_launch_child :: "environment \<Rightarrow> string list \<Rightarrow> shell_state \<Rightarrow> stop" where
  "shell_launch_child env args st =
     (case child_setup env st of
        (evs, Some code) \<Rightarrow> Child_Exit evs code
      | (evs, None) \<Rightarrow>
          if env_exec env (arg args 0) args
          then Child_Exec (evs @ [Execvp (arg args 0) args])
          else Child_Exit (evs @ [Execvp (arg args 0) args, Perror ''smallsh'']) 1)"

definition shell_launch :: "environment \<Rightarrow> string list \<Rightarrow> shell_state \<Rightarrow> command_result" where
  "shell_launch env args st =
     (case env_fork env of
        Fork_Child \<Rightarrow> Inl (shell_launch_child env args st)
      | Fork_Failed \<Rightarrow> Inr (1, st, [Perror ''smallsh''])
      | Fork_Parent pid \<Rightarrow>
          if isBackground st \<noteq> 0 then
            (if 0 \<le> numBGProcesses st \<and> nat (numBGProcesses st) < length (bgTracker st)
             then Inr (1,
                       st\<lparr>bgTracker := (bgTracker st)[nat (numBGProcesses st) := pid],
                          numBGProcesses := numBGProcesses st + 1\<rparr>,
                       [Printf (''background pid is '' @ dec_int pid @ ''\<newline>'')])
             else Inl Tracker_Overflow)
          else
            (case wait_loop (env_waits env) st of
               None \<Rightarrow> Inl Wait_Blocked
             | Some st1 \<Rightarrow>
                 Inr (1, st1,
                      if WIFSIGNALED (status st1)
                      then [Printf (''terminated by signal '' @ dec_int (sint (status st1)) @ ''\<newline>'')]
                      else [])))"

subsection \<open>Dispatch\<close>

datatype dispatch = No_Action | Built_In nat | Launch

text \<open>The \<^verbatim>\<open>for\<close> loop over the names of the built-in commands.\<close>

function search_builtins :: "nat \<Rightarrow> string \<Rightarrow> nat option" where
  "search_builtins i name =
     (if i < shell_num_builtins
      then (if name = builtin_str ! i then Some i else search_builtins (Suc i) name)
      else None)"
  by pat_completeness auto
termination
  by (relation "measure (\<lambda>(i, name). shell_num_builtins - i)") auto

declare search_builtins.simps [simp del]

text \<open>
  Which way \<^verbatim>\<open>shell_execute\<close> goes: \<^verbatim>\<open>strchr(args[0], '#') != NULL\<close> holds when
  the character occurs anywhere in the first token.
\<close>

definition shell_dispatch :: "string list \<Rightarrow> dispatch" where
  "shell_dispatch args =
     (case arg args 0 of
        None \<Rightarrow> No_Action
      | Some a0 \<Rightarrow>
          if CHR ''#'' \<in> set a0 then No_Action
          else (case search_builtins 0 a0 of Some i \<Rightarrow> Built_In i | None \<Rightarrow> Launch))"

definition shell_execute :: "environment \<Rightarrow> string list \<Rightarrow> shell_state \<Rightarrow> command_result" where
  "shell_execute env args st =
     (case shell_dispatch args of
        No_Action \<Rightarrow> Inr (1, st, [])
      | Built_In i \<Rightarrow> (builtin_func ! i) env args st
      | Launch \<Rightarrow> shell_launch env args st)"

subsection \<open>Background children and the stop signal\<close>

definition report_done :: "int \<Rightarrow> c_int \<Rightarrow> event list" where
  "report_done wpid childExitMethod =
     (if WIFEXITED childExitMethod then
        [Printf (''background pid '' @ dec_int wpid @ '' is done: exit value ''
                   @ dec_int (sint (WEXITSTATUS childExitMethod)) @ ''\<newline>'')]
      else if WIFSIGNALED childExitMethod then
        [Printf (''background pid '' @ dec_int wpid @ '' is done: terminated by signal ''
                   @ dec_int (sint (WTERMSIG childExitMethod)) @ ''\<newline>'')]
      else [])"

definition background_check :: "environment \<Rightarrow> int \<Rightarrow> int list \<Rightarrow> event list" where
  "background_check env n bgProcesses =
     concat (map (\<lambda>p. case env_reap env p of None \<Rightarrow> [] | Some s \<Rightarrow> report_done p s)
                 (take (nat n) bgProcesses))"

definition entering_message :: string where
  "entering_message = ''\<newline>Entering foreground-only mode (& is now ignored)\<newline>: ''"

definition exiting_message :: string where
  "exiting_message = ''\<newline>Exiting foreground-only mode\<newline>: ''"

definition catchSIGTSTP :: "shell_state \<Rightarrow> shell_state \<times> event list" where
  "catchSIGTSTP st =
     (if backgroundAllowed st = 1 then
        (st\<lparr>backgroundAllowed := 0\<rparr>, [Write (take 52 entering_message)])
      else if backgroundAllowed st = 0 then
        (st\<lparr>backgroundAllowed := 1\<rparr>, [Write (take 32 exiting_message)])
      else (st, []))"

subsection \<open>The main loop\<close>

text \<open>
  The state in which the line of an iteration is executed: the redirection flags
  are cleared, the line is read and expanded, then split. The check of the
  background children and the prompt, which the source places between the
  clearing and the reading, change no global; their events are those that
  \<open>loop_body\<close> puts first.
\<close>

definition read_and_split ::
  "environment \<Rightarrow> shell_state \<Rightarrow> (string list \<times> shell_state) result" where
  "read_and_split env st =
     (case shell_read_line env of
        Inl e \<Rightarrow> Inl e
      | Inr line \<Rightarrow> shell_split_line env line (st\<lparr>in_flag := 0, out_flag := 0\<rparr>))"

text \<open>One pass through the body of the \<^verbatim>\<open>do ... while\<close> loop of \<^verbatim>\<open>shell_loop\<close>.\<close>

definition loop_body :: "environment \<Rightarrow> shell_state \<Rightarrow> command_result" where
  "loop_body env st =
     (case read_and_split env st of
        Inl e \<Rightarrow> Inl e
      | Inr (args, st1) \<Rightarrow>
          (case shell_execute env args st1 of
             Inl e \<Rightarrow> Inl e
           | Inr (shell_active, st2, evs) \<Rightarrow>
               Inr (shell_active, st2,
                    background_check env (numBGProcesses st) (bgTracker st)
                      @ [Printf '': ''] @ evs)))"

text \<open>
  A session is what reaches the shell, in order: lines, each with the answers of
  the outside world for its iteration, and deliveries of the stop signal. The
  handler touches only \<^verbatim>\<open>backgroundAllowed\<close>, which the loop reads once per
  iteration, at the end of \<^verbatim>\<open>shell_split_line\<close>; a delivery is therefore placed
  between two iterations. \<^verbatim>\<open>shell_loop\<close> runs the loop over a session and returns
  the last value of \<^verbatim>\<open>shell_active\<close>, which is \<open>0\<close> once the loop has ended.
\<close>

datatype input = Line environment | Stop_Signal

fun shell_loop :: "input list \<Rightarrow> shell_state \<Rightarrow> command_result" where
  "shell_loop [] st = Inr (1, st, [])"
| "shell_loop (Stop_Signal # inputs) st =
     (case shell_loop inputs (fst (catchSIGTSTP st)) of
        Inl e \<Rightarrow> Inl e
      | Inr (shell_active, st1, evs) \<Rightarrow> Inr (shell_active, st1, snd (catchSIGTSTP st) @ evs))"
| "shell_loop (Line env # inputs) st =
     (case loop_body env st of
        Inl e \<Rightarrow> Inl e
      | Inr (shell_active, st1, evs) \<Rightarrow>
          if shell_active = 0 then Inr (0, st1, evs)
          else (case shell_loop inputs st1 of
                  Inl e \<Rightarrow> Inl e
                | Inr (shell_active2, st2, evs2) \<Rightarrow> Inr (shell_active2, st2, evs @ evs2)))"

subsection \<open>A sample environment\<close>

text \<open>
  An outside world for the examples: the given line in a buffer of 120 bytes,
  process identifier 1234, every allocation, \<^verbatim>\<open>chdir\<close>, \<^verbatim>\<open>open\<close> and \<^verbatim>\<open>execvp\<close>
  succeeds, \<^verbatim>\<open>fork\<close> returns child 4321 to the shell, the child exits with code 0
  at the first wait, and no background child has ended.
\<close>

definition sample_environment :: "string \<Rightarrow> environment" where
  "sample_environment line =
     \<lparr> env_line = line, env_bufsize = 120, env_pid = 1234,
       env_alloc = (\<lambda>n. True),
       env_home = Some ''/home/user'', env_chdir = (\<lambda>p. True),
       env_fork = Fork_Parent 4321, env_waits = [0],
       env_reap = (\<lambda>p. None),
       env_open = (\<lambda>p f m. 3), env_exec = (\<lambda>p a. True) \<rparr>"

text \<open>The same world when the line launches a background command and \<^verbatim>\<open>fork\<close> returns \<open>p\<close>.\<close>

definition background_command :: "int \<Rightarrow> environment" where
  "background_command p =
     sample_environment (''sleep 100 &\<newline>'') \<lparr>env_fork := Fork_Parent p\<rparr>"

section \<open>Properties\<close>

subsection \<open>Which globals the functions leave alone\<close>

lemma split_loop_backgroundAllowed:
  "split_loop alloc ts tokens bufsize st = Inr (tokens1, bufsize1, st1)
   \<Longrightarrow> backgroundAllowed st1 = backgroundAllowed st"
  by (induction alloc ts tokens bufsize st rule: split_loop.induct)
     (auto split: if_splits)

lemma shell_split_line_backgroundAllowed:
  "shell_split_line env line st = Inr (args, st1)
   \<Longrightarrow> backgroundAllowed st1 = backgroundAllowed st"
  by (auto simp: shell_split_line_def split: if_splits sum.splits
           dest!: split_loop_backgroundAllowed)

lemma wait_loop_backgroundAllowed:
  "wait_loop ws st = Some st1 \<Longrightarrow> backgroundAllowed st1 = backgroundAllowed st"
  by (induction ws arbitrary: st) (auto split: if_splits)

lemma shell_launch_backgroundAllowed:
  "shell_launch env args st = Inr (r, st1, evs)
   \<Longrightarrow> backgroundAllowed st1 = backgroundAllowed st"
  by (auto simp: shell_launch_def split: fork_result.splits if_splits option.splits
           dest: wait_loop_backgroundAllowed)

lemma search_builtins_bound:
  "search_builtins i name = Some j \<Longrightarrow> j < shell_num_builtins"
  by (induction i name rule: search_builtins.induct)
     (subst (asm) search_builtins.simps, auto split: if_splits)

lemma builtin_backgroundAllowed:
  "j < shell_num_builtins \<Longrightarrow> (builtin_func ! j) env args st = Inr (r, st1, evs)
   \<Longrightarrow> backgroundAllowed st1 = backgroundAllowed st"
  by (auto simp: shell_num_builtins_def builtin_str_def builtin_func_def less_Suc_eq
                 numeral_3_eq_3 shell_cd_def shell_exit_def shell_status_def
           split: if_splits)

lemma shell_execute_backgroundAllowed:
  "shell_execute env args st = Inr (r, st1, evs)
   \<Longrightarrow> backgroundAllowed st1 = backgroundAllowed st"
  by (auto simp: shell_execute_def shell_dispatch_def
           split: dispatch.splits option.splits if_splits
           dest: shell_launch_backgroundAllowed search_builtins_bound builtin_backgroundAllowed)

lemma loop_body_backgroundAllowed:
  "loop_body env st = Inr (r, st1, evs)
   \<Longrightarrow> backgroundAllowed st1 = backgroundAllowed st"
  by (auto simp: loop_body_def read_and_split_def split: sum.splits
           dest!: shell_execute_backgroundAllowed shell_split_line_backgroundAllowed)

lemma catchSIGTSTP_flag:
  "backgroundAllowed st = 0 \<or> backgroundAllowed st = 1
   \<Longrightarrow> backgroundAllowed (fst (catchSIGTSTP st)) = 0
       \<or> backgroundAllowed (fst (catchSIGTSTP st)) = 1"
  by (auto simp: catchSIGTSTP_def)

text \<open>Along a session the mode flag only ever holds 0 or 1.\<close>

lemma shell_loop_backgroundAllowed:
  "shell_loop inputs st = Inr (r, st1, evs)
   \<Longrightarrow> backgroundAllowed st = 0 \<or> backgroundAllowed st = 1
   \<Longrightarrow> backgroundAllowed st1 = 0 \<or> backgroundAllowed st1 = 1"
proof (induction inputs st arbitrary: r st1 evs rule: shell_loop.induct)
  case (1 st)
  then show ?case by simp
next
  case (2 inputs st)
  from "2.prems"(1) obtain r' evs' where
    "shell_loop inputs (fst (catchSIGTSTP st)) = Inr (r', st1, evs')"
    by (auto split: sum.splits)
  then show ?case
    using "2.IH" catchSIGTSTP_flag [OF "2.prems"(2)] by blast
next
  case (3 env inputs st)
  from "3.prems"(1) obtain a s e where body: "loop_body env st = Inr (a, s, e)"
    by (auto split: sum.splits)
  have flag: "backgroundAllowed s = 0 \<or> backgroundAllowed s = 1"
    using loop_body_backgroundAllowed [OF body] "3.prems"(2) by simp
  show ?case
  proof (cases "a = 0")
    case True
    with body "3.prems"(1) have "st1 = s" by simp
    with flag show ?thesis by simp
  next
    case False
    with body "3.prems"(1) obtain r' evs' where
      "shell_loop inputs s = Inr (r', st1, evs')"
      by (auto split: sum.splits)
    then show ?thesis using "3.IH" [OF body refl refl False] flag
      by blast
  qed
qed

subsection \<open>Wait statuses\<close>

text \<open>A status that reports a stopped child is neither an exit nor a termination by a signal.\<close>

lemma stopped_not_terminated:
  "WIFSTOPPED x \<Longrightarrow> \<not> WIFEXITED x \<and> \<not> WIFSIGNALED x"
proof -
  assume a: "WIFSTOPPED x"
  have "x AND 0x7f = (x AND 0xff) AND 0x7f"
    by (simp add: and.assoc)
  also have "\<dots> = 0x7f" using a by (simp add: WIFSTOPPED_def)
  finally have b: "x AND 0x7f = 0x7f" .
  show ?thesis by (simp add: WIFEXITED_def WIFSIGNALED_def WTERMSIG_def b)
qed

text \<open>The wait loop ends at the first status that is an exit or a termination by a signal.\<close>

lemma wait_loop_find:
  "wait_loop ws st =
     map_option (\<lambda>w. st\<lparr>status := w\<rparr>) (find (\<lambda>w. WIFEXITED w \<or> WIFSIGNALED w) ws)"
  by (induction ws arbitrary: st) auto

subsection \<open>Dispatch\<close>

text \<open>The dispatch, case by case.\<close>

lemma shell_dispatch_cases:
  "shell_dispatch args =
     (case args of
        [] \<Rightarrow> No_Action
      | a0 # _ \<Rightarrow>
          if CHR ''#'' \<in> set a0 then No_Action
          else if a0 = ''cd'' then Built_In 0
          else if a0 = ''exit'' then Built_In 1
          else if a0 = ''status'' then Built_In 2
          else Launch)"
  by (simp add: shell_dispatch_def arg_def search_builtins.simps shell_num_builtins_def
                builtin_str_def split: list.splits)

text \<open>
  C2 (no action exactly for an empty vector or a first token that starts with
  \<^verbatim>\<open>#\<close>): the code tests whether \<^verbatim>\<open>#\<close> occurs anywhere in the first token. The
  command \<^verbatim>\<open>./job#1 now\<close> does not start with \<^verbatim>\<open>#\<close>, and yet it is not dispatched:
  \<^verbatim>\<open>shell_execute\<close> returns 1 with no action.
\<close>

theorem hash_inside_first_token_is_ignored:
  "\<not> prefix ''#'' ''./job#1''
   \<and> shell_dispatch [''./job#1'', ''now''] = No_Action
   \<and> shell_execute env [''./job#1'', ''now''] st = Inr (1, st, [])"
  by (simp add: shell_execute_def shell_dispatch_cases)

subsection \<open>The foreground wait\<close>

text \<open>
  C1 (the shell reports the number of the signal that ended a foreground child):
  the code prints the whole wait status instead. A child ended by signal 11 with
  a core dump has status 139, which satisfies the signaled predicate and whose
  signal number is 11; \<^verbatim>\<open>shell_launch\<close> prints \<^verbatim>\<open>terminated by signal 139\<close>, while
  the built-in \<^verbatim>\<open>status\<close>, run next, prints \<^verbatim>\<open>terminated by signal 11\<close>.
\<close>

theorem foreground_signal_report_prints_raw_status:
  "WIFSIGNALED 139 \<and> WTERMSIG 139 = 11
   \<and> shell_launch (env\<lparr>env_fork := Fork_Parent pid, env_waits := [139]\<rparr>) args
        (st\<lparr>isBackground := 0\<rparr>)
     = Inr (1, st\<lparr>isBackground := 0, status := 139\<rparr>,
            [Printf ''terminated by signal 139\<newline>''])
   \<and> shell_status env args (st\<lparr>isBackground := 0, status := 139\<rparr>)
     = Inr (1, st\<lparr>isBackground := 0, status := 139\<rparr>,
            [Printf ''terminated by signal 11\<newline>''])"
  by (simp add: shell_launch_def shell_status_def WIFEXITED_def WIFSIGNALED_def WTERMSIG_def
                dec_int_def dec_nat.simps digit_char_def)

text \<open>
  C7 (the foreground wait never ends on a stop status): in the shell, for a
  foreground command, \<^verbatim>\<open>shell_launch\<close> returns exactly at the first delivered status
  that is an exit or a termination by a signal, and that status is the one left in
  \<^verbatim>\<open>status\<close>; a status that reports a stop is neither, so the statuses before the
  final one, stops included, never end the wait; when no such status is delivered
  the shell stays in the wait.
\<close>

theorem foreground_wait_ends_only_on_termination:
  assumes "env_fork env = Fork_Parent pid" and "isBackground st = 0"
  shows "(WIFSTOPPED x \<longrightarrow> \<not> WIFEXITED x \<and> \<not> WIFSIGNALED x)
       \<and> shell_launch env args st =
           (case find (\<lambda>w. WIFEXITED w \<or> WIFSIGNALED w) (env_waits env) of
              None \<Rightarrow> Inl Wait_Blocked
            | Some w \<Rightarrow>
                Inr (1, st\<lparr>status := w\<rparr>,
                     if WIFSIGNALED w
                     then [Printf (''terminated by signal '' @ dec_int (sint w) @ ''\<newline>'')]
                     else []))
       \<and> ((\<forall>s \<in> set stops. WIFSTOPPED s) \<and> (WIFEXITED w \<or> WIFSIGNALED w)
            \<longrightarrow> wait_loop stops st = None
              \<and> wait_loop (stops @ w # rest) st = Some (st\<lparr>status := w\<rparr>))"
proof -
  have skip: "find (\<lambda>w. WIFEXITED w \<or> WIFSIGNALED w) (stops @ ws)
              = find (\<lambda>w. WIFEXITED w \<or> WIFSIGNALED w) ws"
    if "\<forall>s \<in> set stops. WIFSTOPPED s" for ws
    using that by (induction stops) (auto dest: stopped_not_terminated)
  have "wait_loop stops st = None
        \<and> wait_loop (stops @ w # rest) st = Some (st\<lparr>status := w\<rparr>)"
    if "\<forall>s \<in> set stops. WIFSTOPPED s" and "WIFEXITED w \<or> WIFSIGNALED w"
    using that skip [OF that(1), of "[]"] skip [OF that(1), of "w # rest"]
    by (auto simp: wait_loop_find)
  moreover have "shell_launch env args st =
           (case find (\<lambda>w. WIFEXITED w \<or> WIFSIGNALED w) (env_waits env) of
              None \<Rightarrow> Inl Wait_Blocked
            | Some w \<Rightarrow>
                Inr (1, st\<lparr>status := w\<rparr>,
                     if WIFSIGNALED w
                     then [Printf (''terminated by signal '' @ dec_int (sint w) @ ''\<newline>'')]
                     else []))"
    using assms by (simp add: shell_launch_def wait_loop_find split: option.splits)
  ultimately show ?thesis
    using stopped_not_terminated by blast
qed

text \<open>
  A child stopped by signal 20 (status \<^verbatim>\<open>0x147f\<close>) and then killed by signal 9: the
  wait goes on past the stop and the status left is 9.
\<close>

theorem foreground_wait_ends_only_on_termination_witness:
  "env_fork (sample_environment ''sleep 5'' \<lparr>env_waits := [0x147f, 9]\<rparr>) = Fork_Parent 4321
   \<and> isBackground initial_state = 0
   \<and> WIFSTOPPED (0x147f :: c_int) \<and> WIFSIGNALED (9 :: c_int)
   \<and> shell_launch (sample_environment ''sleep 5'' \<lparr>env_waits := [0x147f, 9]\<rparr>) [''sleep'', ''5'']
        initial_state
     = Inr (1, initial_state\<lparr>status := 9\<rparr>, [Printf ''terminated by signal 9\<newline>''])
   \<and> wait_loop [0x147f] initial_state = None
   \<and> wait_loop ([0x147f] @ 9 # []) initial_state = Some (initial_state\<lparr>status := 9\<rparr>)"
  using foreground_wait_ends_only_on_termination
          [of "sample_environment ''sleep 5'' \<lparr>env_waits := [0x147f, 9]\<rparr>" 4321 initial_state
              "0x147f" "[''sleep'', ''5'']" "[0x147f]" 9 "[]"]
  by (simp add: sample_environment_def initial_state_def WIFSTOPPED_def WIFEXITED_def
                WIFSIGNALED_def WTERMSIG_def dec_int_def dec_nat.simps digit_char_def)

subsection \<open>The built-in \<^verbatim>\<open>status\<close>\<close>

text \<open>
  C10 (\<^verbatim>\<open>status\<close> before any foreground wait): \<^verbatim>\<open>status\<close> starts at the sentinel
  \<^verbatim>\<open>-5\<close>; in a state where it still holds that value the built-in decodes it as
  a termination by signal 123, prints \<^verbatim>\<open>terminated by signal 123\<close> and no
  \<^verbatim>\<open>exit value\<close> line, and returns 1, so the loop goes on.
\<close>

theorem status_before_first_foreground_wait:
  "status initial_state = - 5 \<and> sint (status initial_state) = - 5
   \<and> \<not> WIFEXITED (- 5) \<and> WIFSIGNALED (- 5) \<and> WTERMSIG (- 5) = 123
   \<and> shell_status env args (st\<lparr>status := - 5\<rparr>)
     = Inr (1, st\<lparr>status := - 5\<rparr>, [Printf ''terminated by signal 123\<newline>''])
   \<and> loop_body (sample_environment ''status\<newline>'') initial_state
     = Inr (1, initial_state, [Printf '': '', Printf ''terminated by signal 123\<newline>''])"
proof -
  have "shell_status env args (st\<lparr>status := - 5\<rparr>)
     = Inr (1, st\<lparr>status := - 5\<rparr>, [Printf ''terminated by signal 123\<newline>''])" for env args st
    by (simp add: shell_status_def WIFEXITED_def WIFSIGNALED_def WTERMSIG_def
                  dec_int_def dec_nat.simps digit_char_def)
  moreover have "loop_body (sample_environment ''status\<newline>'') initial_state
     = Inr (1, initial_state, [Printf '': '', Printf ''terminated by signal 123\<newline>''])"
    by (simp add: loop_body_def read_and_split_def shell_read_line_def expand_loop.simps
                  sample_environment_def initial_state_def shell_split_line_def TOK_DELIM_def
                  TOK_BUFFSIZE_def grown_def shell_execute_def shell_dispatch_cases
                  builtin_func_def background_check_def pid_text_def
                  shell_status_def WIFEXITED_def WIFSIGNALED_def WTERMSIG_def
                  dec_int_def dec_nat.simps digit_char_def)
  ultimately show ?thesis
    by (simp add: initial_state_def WIFEXITED_def WIFSIGNALED_def WTERMSIG_def)
qed

subsection \<open>The stop signal\<close>

text \<open>
  C9 (each delivery of the stop signal flips the mode): in every state that a
  session reaches from the initial state the mode flag is 0 or 1; a delivery
  turns 1 into 0 with one write of the whole 52-byte entering message, and 0 into 1
  with one write of the whole 32-byte exiting message; two deliveries in a row
  give back the state before them.
\<close>

theorem stop_signal_toggles_mode:
  assumes "shell_loop inputs initial_state = Inr (shell_active, st, evs)"
  shows "(backgroundAllowed st = 0 \<or> backgroundAllowed st = 1)
       \<and> catchSIGTSTP st =
           (if backgroundAllowed st = 1
            then (st\<lparr>backgroundAllowed := 0\<rparr>, [Write entering_message])
            else (st\<lparr>backgroundAllowed := 1\<rparr>, [Write exiting_message]))
       \<and> entering_message =
           ''\<newline>Entering foreground-only mode (& is now ignored)\<newline>: ''
       \<and> length entering_message = 52
       \<and> exiting_message = ''\<newline>Exiting foreground-only mode\<newline>: ''
       \<and> length exiting_message = 32
       \<and> fst (catchSIGTSTP (fst (catchSIGTSTP st))) = st"
proof -
  have flag: "backgroundAllowed st = 0 \<or> backgroundAllowed st = 1"
    using shell_loop_backgroundAllowed [OF assms] by (simp add: initial_state_def)
  have len: "length entering_message = 52" "length exiting_message = 32"
    by (simp_all add: entering_message_def exiting_message_def)
  have "fst (catchSIGTSTP (fst (catchSIGTSTP st))) = st"
    using flag by (auto simp: catchSIGTSTP_def)
  moreover have "catchSIGTSTP st =
           (if backgroundAllowed st = 1
            then (st\<lparr>backgroundAllowed := 0\<rparr>, [Write entering_message])
            else (st\<lparr>backgroundAllowed := 1\<rparr>, [Write exiting_message]))"
    using flag len by (auto simp: catchSIGTSTP_def)
  ultimately show ?thesis
    using flag len by (simp add: entering_message_def exiting_message_def)
qed

theorem stop_signal_toggles_mode_witness:
  "shell_loop [Stop_Signal] initial_state
     = Inr (1, initial_state\<lparr>backgroundAllowed := 0\<rparr>, [Write entering_message])
   \<and> catchSIGTSTP (initial_state\<lparr>backgroundAllowed := 0\<rparr>)
     = (initial_state, [Write exiting_message])"
  using stop_signal_toggles_mode
          [of "[Stop_Signal]" 1 "initial_state\<lparr>backgroundAllowed := 0\<rparr>" "[Write entering_message]"]
  by (simp add: catchSIGTSTP_def initial_state_def entering_message_def)

subsection \<open>The tracker of background children\<close>

lemma background_command_line:
  "shell_read_line (background_command p) = Inr (''sleep 100 &\<newline>'')"
  by (simp add: background_command_def sample_environment_def shell_read_line_def
                expand_loop.simps)

lemma background_command_split:
  "backgroundAllowed st = 1
   \<Longrightarrow> shell_split_line (background_command p) (''sleep 100 &\<newline>'') st
       = Inr ([''sleep'', ''100''], st\<lparr>isBackground := 1\<rparr>)"
  by (simp add: background_command_def sample_environment_def shell_split_line_def
                TOK_DELIM_def TOK_BUFFSIZE_def grown_def)

lemma background_command_execute:
  "shell_execute (background_command p) [''sleep'', ''100''] st
     = shell_launch (background_command p) [''sleep'', ''100''] st"
  by (simp add: shell_execute_def shell_dispatch_cases)

lemma background_command_fork:
  "env_fork (background_command p) = Fork_Parent p"
  by (simp add: background_command_def sample_environment_def)

lemma background_command_body:
  assumes "backgroundAllowed st = 1" and "numBGProcesses st = int n"
  shows "loop_body (background_command p) st =
           (if n < length (bgTracker st)
            then Inr (1, st\<lparr>in_flag := 0, out_flag := 0, isBackground := 1,
                             bgTracker := (bgTracker st)[n := p],
                             numBGProcesses := int n + 1\<rparr>,
                      background_check (background_command p) (numBGProcesses st) (bgTracker st)
                        @ [Printf '': '', Printf (''background pid is '' @ dec_int p @ ''\<newline>'')])
            else Inl Tracker_Overflow)"
  using assms
  by (simp add: loop_body_def read_and_split_def background_command_line
                background_command_split background_command_execute shell_launch_def
                background_command_fork)

lemma background_launches_fit:
  "backgroundAllowed st = 1 \<Longrightarrow> numBGProcesses st = int n
   \<Longrightarrow> n + length ps \<le> length (bgTracker st)
   \<Longrightarrow> \<exists>st1 evs. shell_loop (map (\<lambda>p. Line (background_command p)) ps) st = Inr (1, st1, evs)
          \<and> backgroundAllowed st1 = 1
          \<and> numBGProcesses st1 = int (n + length ps)
          \<and> length (bgTracker st1) = length (bgTracker st)"
proof (induction ps arbitrary: st n)
  case Nil
  then show ?case by simp
next
  case (Cons p ps)
  let ?s = "st\<lparr>in_flag := 0, out_flag := 0, isBackground := 1,
                bgTracker := (bgTracker st)[n := p], numBGProcesses := int n + 1\<rparr>"
  from Cons.prems have n: "n < length (bgTracker st)" by simp
  have "\<exists>st1 evs. shell_loop (map (\<lambda>p. Line (background_command p)) ps) ?s = Inr (1, st1, evs)
          \<and> backgroundAllowed st1 = 1
          \<and> numBGProcesses st1 = int (Suc n + length ps)
          \<and> length (bgTracker st1) = length (bgTracker ?s)"
    using Cons.prems by (intro Cons.IH) simp_all
  then obtain st1 evs where
    "shell_loop (map (\<lambda>p. Line (background_command p)) ps) ?s = Inr (1, st1, evs)"
    "backgroundAllowed st1 = 1" "numBGProcesses st1 = int (Suc n + length ps)"
    "length (bgTracker st1) = length (bgTracker ?s)"
    by blast
  then show ?case
    using n by (simp add: background_command_body [OF Cons.prems(1,2)])
qed

lemma background_launches_overflow:
  "backgroundAllowed st = 1 \<Longrightarrow> numBGProcesses st = int n
   \<Longrightarrow> n \<le> length (bgTracker st) \<Longrightarrow> length (bgTracker st) < n + length ps
   \<Longrightarrow> shell_loop (map (\<lambda>p. Line (background_command p)) ps) st = Inl Tracker_Overflow"
proof (induction ps arbitrary: st n)
  case Nil
  then show ?case by simp
next
  case (Cons p ps)
  show ?case
  proof (cases "n < length (bgTracker st)")
    case True
    let ?s = "st\<lparr>in_flag := 0, out_flag := 0, isBackground := 1,
                  bgTracker := (bgTracker st)[n := p], numBGProcesses := int n + 1\<rparr>"
    have "shell_loop (map (\<lambda>p. Line (background_command p)) ps) ?s = Inl Tracker_Overflow"
      using Cons.prems True by (intro Cons.IH [where n = "Suc n"]) simp_all
    then show ?thesis
      using True by (simp add: background_command_body [OF Cons.prems(1,2)])
  next
    case False
    then show ?thesis
      by (simp add: background_command_body [OF Cons.prems(1,2)])
  qed
qed

text \<open>
  C3 (recording a background child stays within the 250 entries of the tracker):
  \<^verbatim>\<open>shell_launch\<close> stores at \<^verbatim>\<open>bgTracker[numBGProcesses++]\<close> without comparing the
  count with the size of the array. A session of 250 lines \<^verbatim>\<open>sleep 100 &\<close> brings
  the count to 250; the next such line stores at index 250, past the last entry.
\<close>

theorem tracker_overflows_at_251st_background_child:
  "length (bgTracker initial_state) = 250
   \<and> (\<exists>st evs. shell_loop (map (\<lambda>p. Line (background_command p)) (map int [1..<251])) initial_state
                  = Inr (1, st, evs) \<and> numBGProcesses st = 250)
   \<and> shell_loop (map (\<lambda>p. Line (background_command p)) (map int [1..<252])) initial_state
       = Inl Tracker_Overflow"
proof -
  have i: "backgroundAllowed initial_state = 1" "numBGProcesses initial_state = int 0"
    "length (bgTracker initial_state) = 250"
    by (simp_all add: initial_state_def)
  have "\<exists>st evs. shell_loop (map (\<lambda>p. Line (background_command p)) (map int [1..<251])) initial_state
                  = Inr (1, st, evs) \<and> numBGProcesses st = 250"
    using background_launches_fit [OF i(1,2), of "map int [1..<251]"] i(3) by auto
  moreover have "shell_loop (map (\<lambda>p. Line (background_command p)) (map int [1..<252])) initial_state
       = Inl Tracker_Overflow"
    using background_launches_overflow [OF i(1,2), of "map int [1..<252]"] i(3) by simp
  ultimately show ?thesis using i(3) by blast
qed

subsection \<open>Redirection flags from one command to the next\<close>















subsection \<open>Redirection in the child\<close>

text \<open>
  C8 (a failed \<^verbatim>\<open>open\<close> of a redirection file ends the child, not the shell): in
  the child, when the input file is asked for and \<^verbatim>\<open>open\<close> (read-only) fails, or
  when the input step passed, the output file is asked for and \<^verbatim>\<open>open\<close>
  (write-only, create, truncate, mode 0644) fails, the last events are that
  \<^verbatim>\<open>open\<close> and the \<^verbatim>\<open>perror\<close>, and the child exits with code 1 without executing
  anything. In the shell, \<^verbatim>\<open>shell_launch\<close> does not depend on what \<^verbatim>\<open>open\<close> answers;
  the exit of a foreground child with code 1 reaches it as wait status
  \<^verbatim>\<open>0x100\<close>, which it stores, and it returns 1, the value that keeps the main
  loop going.
\<close>

theorem redirection_open_failure_ends_child:
  assumes "env_fork env = Fork_Child"
  shows "(in_flag st = 1 \<and> env_open env (inputFile st) [O_RDONLY] None = - 1
          \<longrightarrow> shell_launch env args st
              = Inl (Child_Exit (fst (child_signals st)
                                  @ [Open (inputFile st) [O_RDONLY] None,
                                     Perror ''input file open()'']) 1))
       \<and> (snd (child_input env st) = None \<and> out_flag st = 1
          \<and> env_open env (outputFile st) [O_WRONLY, O_CREAT, O_TRUNC] (Some mode_0644) = - 1
          \<longrightarrow> shell_launch env args st
              = Inl (Child_Exit (fst (child_signals st) @ fst (child_input env st)
                                  @ [Open (outputFile st) [O_WRONLY, O_CREAT, O_TRUNC] (Some mode_0644),
                                     Perror ''output file open()'']) 1))
       \<and> mode_0644 = 420
       \<and> shell_launch (env\<lparr>env_fork := Fork_Parent pid, env_open := opn\<rparr>) args st
         = shell_launch (env\<lparr>env_fork := Fork_Parent pid\<rparr>) args st
       \<and> WIFEXITED 0x100 \<and> WEXITSTATUS 0x100 = 1
       \<and> shell_launch (env\<lparr>env_fork := Fork_Parent pid, env_waits := 0x100 # ws\<rparr>) args
           (st\<lparr>isBackground := 0\<rparr>)
         = Inr (1, st\<lparr>isBackground := 0, status := 0x100\<rparr>, [])"
  using assms
  by (auto simp: shell_launch_def shell_launch_child_def child_setup_def and_then_def
                child_signals_def child_input_def child_output_def open_and_dup_def
                skip_step_def mode_0644_def WIFEXITED_def WIFSIGNALED_def WTERMSIG_def WEXITSTATUS_def
           split: prod.splits option.splits)

theorem redirection_open_failure_ends_child_witness:
  "shell_launch (sample_environment (''cat < missing.txt\<newline>'')
                   \<lparr>env_fork := Fork_Child, env_open := (\<lambda>p f m. - 1)\<rparr>)
     [''cat''] (initial_state\<lparr>in_flag := 1, inputFile := Some ''missing.txt''\<rparr>)
   = Inl (Child_Exit [Sigaction SIGTSTP SIG_IGN, Sigaction SIGINT SIG_DFL,
                      Open (Some ''missing.txt'') [O_RDONLY] None,
                      Perror ''input file open()''] 1)
   \<and> shell_launch (sample_environment (''cat < in.txt > /nodir/out.txt\<newline>'')
                   \<lparr>env_fork := Fork_Child, env_open := (\<lambda>p f m. if f = [O_RDONLY] then 3 else - 1)\<rparr>)
     [''cat''] (initial_state\<lparr>in_flag := 1, out_flag := 1, inputFile := Some ''in.txt'',
                               outputFile := Some ''/nodir/out.txt''\<rparr>)
   = Inl (Child_Exit [Sigaction SIGTSTP SIG_IGN, Sigaction SIGINT SIG_DFL,
                      Open (Some ''in.txt'') [O_RDONLY] None, Dup2 3 0,
                      Open (Some ''/nodir/out.txt'') [O_WRONLY, O_CREAT, O_TRUNC] (Some 420),
                      Perror ''output file open()''] 1)"
  using redirection_open_failure_ends_child
          [of "sample_environment (''cat < missing.txt\<newline>'')
                   \<lparr>env_fork := Fork_Child, env_open := (\<lambda>p f m. - 1)\<rparr>"
              "initial_state\<lparr>in_flag := 1, inputFile := Some ''missing.txt''\<rparr>" "[''cat'']"]
        redirection_open_failure_ends_child
          [of "sample_environment (''cat < in.txt > /nodir/out.txt\<newline>'')
                   \<lparr>env_fork := Fork_Child, env_open := (\<lambda>p f m. if f = [O_RDONLY] then 3 else - 1)\<rparr>"
              "initial_state\<lparr>in_flag := 1, out_flag := 1, inputFile := Some ''in.txt'',
                               outputFile := Some ''/nodir/out.txt''\<rparr>" "[''cat'']"]
  by (simp add: sample_environment_def initial_state_def child_signals_def child_input_def
                open_and_dup_def)


subsection \<open>The expansion of \<^verbatim>\<open>$$\<close>\<close>

text \<open>The text of a process identifier: digits only, never empty, at most nine of them below \<open>10\<^sup>9\<close>.\<close>

lemma digit_char_digit: "d < 10 \<Longrightarrow> digit_char d \<in> set ''0123456789''"
  unfolding digit_char_def by (rule nth_mem) simp

lemma dec_nat_digits: "c \<in> set (dec_nat n) \<Longrightarrow> c \<in> set ''0123456789''"
proof (induction n rule: dec_nat.induct)
  case (1 n)
  show ?case
  proof (cases "n < 10")
    case True
    with "1.prems" show ?thesis
      using digit_char_digit [of n] by (simp add: dec_nat.simps [of n])
  next
    case False
    with "1.prems" "1.IH" show ?thesis
      using digit_char_digit [of "n mod 10"] by (auto simp: dec_nat.simps [of n])
  qed
qed

lemma dec_nat_no_dollar: "CHR ''$'' \<notin> set (dec_nat n)"
  using dec_nat_digits [of "CHR ''$''" n] by auto

lemma dec_nat_not_Nil: "dec_nat n \<noteq> []"
  by (subst dec_nat.simps) simp

lemma dec_nat_length: "n < 10 ^ k \<Longrightarrow> 0 < k \<Longrightarrow> length (dec_nat n) \<le> k"
proof (induction n arbitrary: k rule: dec_nat.induct)
  case (1 n)
  show ?case
  proof (cases "n < 10")
    case True
    with "1.prems" show ?thesis by (simp add: dec_nat.simps [of n])
  next
    case False
    obtain j where k: "k = Suc j" using "1.prems"(2) by (cases k) auto
    with "1.prems"(1) have div: "n div 10 < 10 ^ j"
      by (simp add: less_mult_imp_div_less mult.commute)
    have "0 < j"
    proof (rule ccontr)
      assume "\<not> 0 < j"
      with k "1.prems"(1) False show False by simp
    qed
    with "1.IH" [OF False div] have "length (dec_nat (n div 10)) \<le> j" by simp
    with False k show ?thesis by (simp add: dec_nat.simps [of n])
  qed
qed

lemma pid_text_decimal:
  "0 < p \<Longrightarrow> p < 10 ^ 9 \<Longrightarrow> pid_text p = dec_int p"
proof -
  assume p: "0 < p" "p < 10 ^ 9"
  then have "nat p < 10 ^ 9" by (simp add: nat_less_iff)
  then have "length (dec_nat (nat p)) \<le> 9" by (rule dec_nat_length) simp
  with p show ?thesis by (simp add: pid_text_def dec_int_def)
qed

lemma dec_int_no_dollar: "CHR ''$'' \<notin> set (dec_int p)"
  by (simp add: dec_int_def dec_nat_no_dollar)

lemma strstr_marker_Cons:
  "strstr (a # s) ''$$'' =
     (if a = CHR ''$'' \<and> (\<exists>rest. s = CHR ''$'' # rest) then Some 0
      else map_option Suc (strstr s ''$$''))"
  by (cases s) auto

lemma spec_expand_no_marker:
  "strstr s ''$$'' = None \<Longrightarrow> spec_expand pid s = s"
  by (induction pid s rule: spec_expand.induct)
     (auto simp: strstr_marker_Cons split: if_splits)

lemma spec_expand_first_marker:
  "strstr s ''$$'' = Some k
   \<Longrightarrow> spec_expand pid s = take k s @ pid @ spec_expand pid (drop (k + 2) s)
       \<and> k + 2 \<le> length s"
proof (induction pid s arbitrary: k rule: spec_expand.induct)
  case (1 pid a b rest)
  show ?case
  proof (cases "a = CHR ''$'' \<and> b = CHR ''$''")
    case True
    with "1.prems" show ?thesis by (simp add: strstr_marker_Cons)
  next
    case False
    with "1.prems" obtain j where j: "strstr (b # rest) ''$$'' = Some j" "k = Suc j"
      by (auto simp: strstr_marker_Cons [of a] split: if_splits)
    from "1.IH"(2) [OF False j(1)] False j(2) show ?thesis by auto
  qed
next
  case (2 pid a)
  then show ?case by (simp add: strstr_marker_Cons)
next
  case (3 pid)
  then show ?case by simp
qed

lemma spec_expand_Cons_other:
  "CHR ''$'' \<noteq> a \<Longrightarrow> spec_expand pid (a # s) = a # spec_expand pid s"
  by (cases s) auto

lemma spec_expand_append_plain:
  "CHR ''$'' \<notin> set ds \<Longrightarrow> spec_expand pid (ds @ s) = ds @ spec_expand pid s"
  by (induction ds) (simp_all add: spec_expand_Cons_other)

lemma spec_expand_grows:
  "2 \<le> length pid \<Longrightarrow> length s \<le> length (spec_expand pid s)"
  by (induction pid s rule: spec_expand.induct) auto

lemma spec_expand_shrinks:
  "length pid \<le> 2 \<Longrightarrow> length (spec_expand pid s) \<le> length s"
  by (induction pid s rule: spec_expand.induct) auto


lemma expand_loop_spec:
  "CHR ''$'' \<notin> set pid \<Longrightarrow> pid \<noteq> [] \<Longrightarrow> p \<le> length line
    \<Longrightarrow> length line < bufsize \<Longrightarrow> length line < 4096
    \<Longrightarrow> length (take p line @ spec_expand pid (drop p line)) < bufsize
    \<Longrightarrow> length (take p line @ spec_expand pid (drop p line)) < 4096
    \<Longrightarrow> expand_loop bufsize pid line p = Inr (take p line @ spec_expand pid (drop p line))"
proof (induction bufsize pid line p rule: expand_loop.induct)
  case (1 bufsize pid line p)
  show ?case
  proof (cases "strstr (drop p line) ''$$''")
    case None
    then show ?thesis
      by (simp add: expand_loop.simps [of _ _ line p] spec_expand_no_marker)
  next
    case (Some k)
    let ?i = "p + k"
    let ?rest = "drop (?i + 2) line"
    let ?line = "take ?i line @ pid @ ?rest"
    let ?final = "take ?i line @ pid @ spec_expand pid ?rest"
    from spec_expand_first_marker [OF Some, of pid]
    have first: "spec_expand pid (drop p line)
                 = take k (drop p line) @ pid @ spec_expand pid (drop (k + 2) (drop p line))"
      and kk: "k + 2 \<le> length (drop p line)"
      by simp_all
    from kk "1.prems"(3) have k: "?i + 2 \<le> length line" by simp
    have "drop (k + 2) (drop p line) = ?rest"
      by (simp add: add.commute add.left_commute)
    with first have whole: "take p line @ spec_expand pid (drop p line) = ?final"
      by (simp add: take_add)
    obtain a ds where a: "pid = a # ds" using "1.prems"(2) by (cases pid) auto
    with "1.prems"(1) have ds: "CHR ''$'' \<notin> set ds" by simp
    have len: "length ?line = ?i + length pid + (length line - (?i + 2))"
      using k by simp
    have "length ?line < bufsize \<and> length ?line < 4096"
    proof (cases "2 \<le> length pid")
      case True
      have "length ?line \<le> length ?final"
        using spec_expand_grows [OF True, of ?rest] by simp
      with "1.prems"(6,7) whole show ?thesis by simp
    next
      case False
      with len k have "length ?line \<le> length line" by simp
      with "1.prems"(4,5) show ?thesis by simp
    qed
    then have guard: "\<not> 4096 < ?i + length pid + (length line - (?i + 2)) + 1"
      "\<not> bufsize < ?i + length pid + (length line - (?i + 2)) + 1"
      and fits: "length ?line < bufsize" "length ?line < 4096"
      using len by simp_all
    have pos: "?i + 1 \<le> length ?line"
      using k a by simp
    have next_final: "take (?i + 1) ?line @ spec_expand pid (drop (?i + 1) ?line) = ?final"
      using k a ds by (simp add: spec_expand_append_plain)
    have "expand_loop bufsize pid ?line (?i + 1)
          = Inr (take (?i + 1) ?line @ spec_expand pid (drop (?i + 1) ?line))"
      using "1.prems"(1,2) pos fits "1.prems"(6,7) whole next_final
      by (intro "1.IH" [OF Some guard]) simp_all
    with Some guard next_final whole show ?thesis
      by (simp add: expand_loop.simps [of _ _ line p])
  qed
qed

text \<open>
  Whenever the line and its expansion fit, with their terminating zero byte, in the
  static buffer and in the line buffer, the loop computes the expansion that the
  specification describes.
\<close>

lemma shell_read_line_expands:
  assumes "0 < env_pid env" and "env_pid env < 10 ^ 9"
      and "length (env_line env) < env_bufsize env" and "length (env_line env) < 4096"
      and "length (spec_expand (dec_int (env_pid env)) (env_line env)) < env_bufsize env"
      and "length (spec_expand (dec_int (env_pid env)) (env_line env)) < 4096"
  shows "shell_read_line env = Inr (spec_expand (dec_int (env_pid env)) (env_line env))"
proof -
  have same: "pid_text (env_pid env) = dec_int (env_pid env)"
    using assms(1,2) by (rule pid_text_decimal)
  have "dec_int (env_pid env) \<noteq> []"
    by (simp add: dec_int_def dec_nat_not_Nil)
  with assms(3-6) show ?thesis
    unfolding shell_read_line_def same
    using expand_loop_spec [of "dec_int (env_pid env)" 0 "env_line env" "env_bufsize env"]
    by (simp add: dec_int_no_dollar)
qed

lemma shell_read_line_example:
  "shell_read_line (sample_environment ''echo $$-$$\<newline>'') = Inr ''echo 1234-1234\<newline>''"
  by (simp add: shell_read_line_def sample_environment_def pid_text_def dec_int_def
                dec_nat.simps digit_char_def expand_loop.simps)

text \<open>
  C4 (every \<^verbatim>\<open>$$\<close> of every line is replaced): the loop builds each intermediate
  line in a static buffer of 4096 bytes and copies it back into the buffer of the
  line, checking neither size. For a line of 4097 characters that starts with
  \<^verbatim>\<open>$$\<close> and process identifier 1234 the first replacement needs 4100 bytes of the
  static buffer; for a line of 118 characters, \<^verbatim>\<open>echo\<close> followed by 56 markers, held
  in a line buffer of 120 bytes, the first replacement needs 121 bytes of it. In
  both cases the write runs past the end of the buffer and no expansion is
  produced.
\<close>

theorem expansion_overflows_its_buffers:
  "length (''$$'' @ replicate 4094 (CHR ''a'') @ ''\<newline>'') = 4097
   \<and> shell_read_line
        (sample_environment (''$$'' @ replicate 4094 (CHR ''a'') @ ''\<newline>'')
           \<lparr>env_bufsize := 7680\<rparr>)
      = Inl Buffer_Overflow
   \<and> length ''echo $$$$$$$$$$$$$$$$$$$$$$$$$$$$$$$$$$$$$$$$$$$$$$$$$$$$$$$$$$$$$$$$$$$$$$$$$$$$$$$$$$$$$$$$$$$$$$$$$$$$$$$$$$$$$$$$\<newline>'' = 118
   \<and> shell_read_line (sample_environment ''echo $$$$$$$$$$$$$$$$$$$$$$$$$$$$$$$$$$$$$$$$$$$$$$$$$$$$$$$$$$$$$$$$$$$$$$$$$$$$$$$$$$$$$$$$$$$$$$$$$$$$$$$$$$$$$$$$\<newline>'') = Inl Line_Overflow"
  by (simp add: shell_read_line_def sample_environment_def pid_text_def dec_int_def
                dec_nat.simps digit_char_def expand_loop.simps)

subsection \<open>The background operator when background commands are off\<close>

lemma split_loop_stored_tokens:
  "split_loop alloc ts tokens bufsize st = Inr (tokens1, bufsize1, st1)
   \<Longrightarrow> tokens1 = tokens @ stored_tokens ts"
  by (induction alloc ts tokens bufsize st rule: split_loop.induct)
     (auto split: if_splits)

lemma split_loop_isBackground:
  "split_loop alloc ts tokens bufsize st = Inr (tokens1, bufsize1, st1)
   \<Longrightarrow> isBackground st1 = isBackground st"
  by (induction alloc ts tokens bufsize st rule: split_loop.induct)
     (auto split: if_splits)

lemma split_loop_one_more_token:
  "split_loop alloc ts tokens bufsize st = Inr (tokens1, bufsize1, st1)
   \<Longrightarrow> \<not> file_name_missing ts
   \<Longrightarrow> split_loop alloc (ts @ [x]) tokens bufsize st = split_loop alloc [x] tokens1 bufsize1 st1"
proof (induction alloc ts tokens bufsize st rule: split_loop.induct)
  case (1 alloc tokens bufsize st)
  then show ?case by simp
next
  case (2 alloc token rest tokens bufsize st)
  show ?case
  proof (cases "token = ''>'' \<or> token = ''<''")
    case True
    with "2.prems"(2) have rest: "rest \<noteq> []" and more: "\<not> file_name_missing (drop 1 rest)"
      by auto
    from rest have eqs: "next_token (rest @ [x]) = next_token rest"
      "drop 1 (rest @ [x]) = drop 1 rest @ [x]"
      by (cases rest; simp add: next_token_def)+
    from True "2.prems"(1) "2.IH"(1,2) more eqs show ?thesis
      by (auto split: if_splits)
  next
    case False
    with "2.prems" "2.IH"(3) show ?thesis
      by (auto split: if_splits)
  qed
qed

text \<open>
  C5 (with background commands off, a final \<^verbatim>\<open>&\<close> changes nothing but its own
  absence), as amended: let the tokens of a line be those of another line followed
  by \<^verbatim>\<open>&\<close>. If, in that other line, every redirection operator has its file
  name (so that the \<^verbatim>\<open>&\<close> is not taken as one) and the tokens stored for it do not
  themselves end with \<^verbatim>\<open>&\<close>, and if splitting it succeeds, then with
  \<^verbatim>\<open>backgroundAllowed\<close> at 0 splitting the line with the \<^verbatim>\<open>&\<close> gives the same
  argument vector and the same globals, with \<^verbatim>\<open>isBackground\<close> at 0.
\<close>

theorem background_gating:
  assumes off: "backgroundAllowed st = 0"
      and amp: "strtok_all TOK_DELIM line_amp = strtok_all TOK_DELIM line @ [''&'']"
      and named: "\<not> file_name_missing (strtok_all TOK_DELIM line)"
      and last: "stored_tokens (strtok_all TOK_DELIM line) = []
                 \<or> last (stored_tokens (strtok_all TOK_DELIM line)) \<noteq> ''&''"
      and plain: "shell_split_line env line st = Inr (args, st1)"
  shows "shell_split_line env line_amp st = Inr (args, st1) \<and> isBackground st1 = 0
       \<and> args = stored_tokens (strtok_all TOK_DELIM line)"
proof -
  let ?ts = "strtok_all TOK_DELIM line"
  from plain have alloc: "env_alloc env TOK_BUFFSIZE"
    by (auto simp: shell_split_line_def split: if_splits)
  from plain alloc obtain tokens bufsize s0 where
    loop: "split_loop (env_alloc env) ?ts [] TOK_BUFFSIZE (st\<lparr>isBackground := 0\<rparr>)
             = Inr (tokens, bufsize, s0)"
    by (auto simp: shell_split_line_def split: sum.splits)
  have tokens: "tokens = stored_tokens ?ts"
    using split_loop_stored_tokens [OF loop] by simp
  have no_amp: "\<not> (0 < length tokens \<and> tokens ! (length tokens - 1) = ''&'')"
    using last tokens by (auto simp: last_conv_nth)
  from plain alloc loop no_amp have fit: "length tokens < bufsize"
    and res: "args = tokens" "st1 = s0"
    by (auto simp: shell_split_line_def split: if_splits)
  have s0: "backgroundAllowed s0 = 0" "isBackground s0 = 0"
    using split_loop_backgroundAllowed [OF loop] split_loop_isBackground [OF loop] off
    by simp_all
  have "split_loop (env_alloc env) (?ts @ [''&'']) [] TOK_BUFFSIZE (st\<lparr>isBackground := 0\<rparr>)
          = split_loop (env_alloc env) [''&''] tokens bufsize s0"
    by (rule split_loop_one_more_token [OF loop named])
  also have "\<dots> = Inr (tokens @ [''&''], bufsize, s0)"
    using fit by (simp add: grown_def)
  finally have "shell_split_line env line_amp st = Inr (tokens, s0)"
    using alloc s0 by (simp add: shell_split_line_def amp)
  with res s0 tokens show ?thesis by simp
qed

text \<open>The lines \<^verbatim>\<open>ls -l &\<close> and \<^verbatim>\<open>ls -l\<close>.\<close>

theorem background_gating_witness:
  "backgroundAllowed (initial_state\<lparr>backgroundAllowed := 0\<rparr>) = 0
   \<and> strtok_all TOK_DELIM ''ls -l &\<newline>'' = strtok_all TOK_DELIM ''ls -l\<newline>'' @ [''&'']
   \<and> \<not> file_name_missing (strtok_all TOK_DELIM ''ls -l\<newline>'')
   \<and> stored_tokens (strtok_all TOK_DELIM ''ls -l\<newline>'') = [''ls'', ''-l'']
   \<and> shell_split_line (sample_environment ''ls -l\<newline>'') ''ls -l\<newline>''
        (initial_state\<lparr>backgroundAllowed := 0\<rparr>)
      = Inr ([''ls'', ''-l''], initial_state\<lparr>backgroundAllowed := 0\<rparr>)
   \<and> shell_split_line (sample_environment ''ls -l\<newline>'') ''ls -l &\<newline>''
        (initial_state\<lparr>backgroundAllowed := 0\<rparr>)
      = Inr ([''ls'', ''-l''], initial_state\<lparr>backgroundAllowed := 0\<rparr>)"
  using background_gating
          [of "initial_state\<lparr>backgroundAllowed := 0\<rparr>" "''ls -l &\<newline>''" "''ls -l\<newline>''"
              "sample_environment ''ls -l\<newline>''" "[''ls'', ''-l'']"
              "initial_state\<lparr>backgroundAllowed := 0\<rparr>"]
  by (simp add: TOK_DELIM_def shell_split_line_def sample_environment_def initial_state_def
                TOK_BUFFSIZE_def grown_def)

text \<open>
  As stated for every line that ends with \<^verbatim>\<open>&\<close> the property fails: the line
  \<^verbatim>\<open>ls & &\<close> gives the arguments \<^verbatim>\<open>ls\<close> and \<^verbatim>\<open>&\<close>, the same line without its last
  \<^verbatim>\<open>&\<close> gives the single argument \<^verbatim>\<open>ls\<close>.
\<close>

theorem background_gating_counterexample:
  "backgroundAllowed (initial_state\<lparr>backgroundAllowed := 0\<rparr>) = 0
   \<and> shell_split_line (sample_environment ''ls & &\<newline>'') ''ls & &\<newline>''
        (initial_state\<lparr>backgroundAllowed := 0\<rparr>)
      = Inr ([''ls'', ''&''], initial_state\<lparr>backgroundAllowed := 0\<rparr>)
   \<and> shell_split_line (sample_environment ''ls & &\<newline>'') ''ls & \<newline>''
        (initial_state\<lparr>backgroundAllowed := 0\<rparr>)
      = Inr ([''ls''], initial_state\<lparr>backgroundAllowed := 0\<rparr>)
   \<and> shell_split_line (sample_environment ''ls & &\<newline>'') ''ls & &\<newline>''
        (initial_state\<lparr>backgroundAllowed := 0\<rparr>)
      \<noteq> shell_split_line (sample_environment ''ls & &\<newline>'') ''ls & \<newline>''
        (initial_state\<lparr>backgroundAllowed := 0\<rparr>)"
  by (simp add: TOK_DELIM_def shell_split_line_def sample_environment_def initial_state_def
                TOK_BUFFSIZE_def grown_def)

end
